theory Spec2Isabelle
  imports Main "HOL-Library.Sublist"
begin

section \<open>JavaScript values and built-ins used by the patched routes and handlers\<close>

text \<open>
  The patch scripts carry the TypeScript routes and the client handlers as text that they
  insert into the deployed files. The routes and handlers are modelled here as functions
  over JavaScript values. Strings are byte lists (UTF-8), numbers are integers (the only
  numbers the modelled code inspects are row counts, ids and truthiness tests), objects are
  association lists in property order.
\<close>

datatype jsval =
    JUndefined
  | JNull
  | JBool bool
  | JNum int
  | JStr string
  | JArr "jsval list"
  | JObj "(string \<times> jsval) list"

text \<open>ToBoolean: \<open>undefined\<close>, \<open>null\<close>, \<open>false\<close>, \<open>0\<close> and \<open>''\<close> are falsy.\<close>

fun truthy :: "jsval \<Rightarrow> bool" where
  "truthy JUndefined = False"
| "truthy JNull = False"
| "truthy (JBool b) = b"
| "truthy (JNum n) = (n \<noteq> 0)"
| "truthy (JStr s) = (s \<noteq> [])"
| "truthy (JArr xs) = True"
| "truthy (JObj fs) = True"

text \<open>\<open>a || b\<close> and \<open>a ?? b\<close>.\<close>

definition js_or :: "jsval \<Rightarrow> jsval \<Rightarrow> jsval" where
  "js_or a b = (if truthy a then a else b)"

definition nullish :: "jsval \<Rightarrow> jsval \<Rightarrow> jsval" where
  "nullish a b = (if a = JUndefined \<or> a = JNull then b else a)"

text \<open>
  Reading an own property of an object that was produced by a JSON parser or a database
  row: a missing property is \<open>undefined\<close>.
\<close>

definition get_field :: "(string \<times> jsval) list \<Rightarrow> string \<Rightarrow> jsval" where
  "get_field fs k = (case map_of fs k of None \<Rightarrow> JUndefined | Some v \<Rightarrow> v)"

text \<open>\<open>Array.prototype.includes\<close> on an array of strings: only an equal string is found.\<close>

definition js_includes :: "string list \<Rightarrow> jsval \<Rightarrow> bool" where
  "js_includes xs v = (case v of JStr s \<Rightarrow> s \<in> set xs | _ \<Rightarrow> False)"

subsection \<open>\<open>parseInt(s, 10)\<close>\<close>

text \<open>
  \<open>parseInt\<close> skips leading white space (the StrWhiteSpaceChar code points, here as
  their UTF-8 bytes), reads an optional sign and then the longest run of decimal digits;
  with no digit the result is \<open>NaN\<close>, modelled as \<open>None\<close>. Whatever follows the digits
  is ignored.
\<close>

definition white1 :: "char \<Rightarrow> bool" where
  "white1 c = (c \<in> set [CHR 0x09, CHR 0x0A, CHR 0x0B, CHR 0x0C, CHR 0x0D, CHR 0x20])"

definition white2 :: "char \<Rightarrow> char \<Rightarrow> bool" where
  "white2 a b = (a = CHR 0xC2 \<and> b = CHR 0xA0)"

definition white3 :: "char \<Rightarrow> char \<Rightarrow> char \<Rightarrow> bool" where
  "white3 a b c =
     ((a = CHR 0xE1 \<and> b = CHR 0x9A \<and> c = CHR 0x80) \<or>
      (a = CHR 0xE2 \<and> b = CHR 0x80 \<and>
         ((128::nat) \<le> of_char c \<and> (of_char c :: nat) \<le> 138 \<or>
           c \<in> set [CHR 0xA8, CHR 0xA9, CHR 0xAF])) \<or>
      (a = CHR 0xE2 \<and> b = CHR 0x81 \<and> c = CHR 0x9F) \<or>
      (a = CHR 0xE3 \<and> b = CHR 0x80 \<and> c = CHR 0x80) \<or>
      (a = CHR 0xEF \<and> b = CHR 0xBB \<and> c = CHR 0xBF))"

fun trim_start :: "string \<Rightarrow> string" where
  "trim_start [] = []"
| "trim_start [a] = (if white1 a then [] else [a])"
| "trim_start [a, b] =
     (if white1 a then trim_start [b] else if white2 a b then [] else [a, b])"
| "trim_start (a # b # c # cs) =
     (if white1 a then trim_start (b # c # cs)
      else if white2 a b then trim_start (c # cs)
      else if white3 a b c then trim_start cs
      else a # b # c # cs)"

definition is_digit :: "char \<Rightarrow> bool" where
  "is_digit c = ((48::nat) \<le> of_char c \<and> (of_char c :: nat) \<le> 57)"

definition digits_value :: "string \<Rightarrow> int" where
  "digits_value ds = foldl (\<lambda>a c. 10 * a + (of_char c - 48)) 0 ds"

definition parseInt10 :: "string \<Rightarrow> int option" where
  "parseInt10 s =
     (let t = trim_start s;
          neg = (case t of [] \<Rightarrow> False | c # r \<Rightarrow> c = CHR ''-'');
          u = (case t of [] \<Rightarrow> [] | c # r \<Rightarrow> if c = CHR ''-'' \<or> c = CHR ''+'' then r else t);
          ds = takeWhile is_digit u
      in if ds = [] then None
         else Some (if neg then - digits_value ds else digits_value ds))"

section \<open>HTTP responses\<close>

datatype response = Response (status_code: nat) (json: jsval)

definition error_json :: "string \<Rightarrow> jsval" where
  "error_json msg = JObj [(''error'', JStr msg)]"

section \<open>The watches table and the bulk-condition route (v29_patch.py, patch_watches_ts)\<close>

text \<open>
  A row of the \<open>watches\<close> table. The route touches the columns \<open>user_id\<close>, \<open>status\<close>,
  \<open>condition\<close> and \<open>updated_at\<close>; every other column of the row lives in the record's
  extension part.
\<close>

record watch =
  watch_id :: int
  user_id :: int
  condition :: string
  status :: string
  updated_at :: int

text \<open>\<open>WHERE user_id = $2 AND status = 'active'\<close>\<close>

definition where_clause :: "int \<Rightarrow> 'a watch_scheme \<Rightarrow> bool" where
  "where_clause userId w = (user_id w = userId \<and> status w = ''active'')"

text \<open>
  \<open>UPDATE watches SET condition = $1, updated_at = NOW() WHERE ...\<close>: a single
  statement. It yields the new table and \<open>rowCount\<close>, the number of rows the WHERE clause
  selected. When the store is unreachable (\<open>db_up = False\<close>) the query rejects and the
  table is as it was.
\<close>

definition update_watches ::
  "bool \<Rightarrow> int \<Rightarrow> string \<Rightarrow> int \<Rightarrow> 'a watch_scheme list
     \<Rightarrow> ('a watch_scheme list \<times> nat) option" where
  "update_watches db_up now c userId tbl =
     (if db_up
      then Some (map (\<lambda>w. if where_clause userId w
                           then w\<lparr>condition := c, updated_at := now\<rparr> else w) tbl,
                 length (filter (where_clause userId) tbl))
      else None)"

text \<open>\<open>!condition || !['new', 'used', 'any'].includes(condition)\<close>\<close>

definition invalid_condition :: "jsval \<Rightarrow> bool" where
  "invalid_condition c = (\<not> truthy c \<or> \<not> js_includes [''new'', ''used'', ''any''] c)"

text \<open>
  \<open>router.patch('/bulk-condition/:userId', ...)\<close>. \<open>userId_param\<close> is
  \<open>req.params.userId\<close>, \<open>body\<close> the object the JSON body parser left in \<open>req.body\<close>,
  \<open>now\<close> the database clock. The result is the response sent and the table afterwards.
  A validated condition is always a string; the last branch of the case is unreachable
  (lemma \<open>valid_condition_is_string\<close>).
\<close>

definition bulk_condition_route ::
  "bool \<Rightarrow> int \<Rightarrow> string \<Rightarrow> (string \<times> jsval) list \<Rightarrow> 'a watch_scheme list
     \<Rightarrow> response \<times> 'a watch_scheme list" where
  "bulk_condition_route db_up now userId_param body tbl =
     (case parseInt10 userId_param of
        None \<Rightarrow> (Response 400 (error_json ''Invalid user ID''), tbl)
      | Some userId \<Rightarrow>
          (let cond = get_field body ''condition'' in
           if invalid_condition cond
           then (Response 400
                   (error_json ''Invalid condition. Must be: new, used, or any''), tbl)
           else (case cond of
                   JStr c \<Rightarrow>
                     (case update_watches db_up now c userId tbl of
                        None \<Rightarrow> (Response 500 (error_json ''Failed to update watches''), tbl)
                      | Some (tbl', rowCount) \<Rightarrow>
                          (Response 200
                             (JObj [(''success'', JBool True),
                                    (''updated'', JNum (int rowCount)),
                                    (''condition'', cond)]), tbl'))
                 | _ \<Rightarrow> (Response 500 (error_json ''Failed to update watches''), tbl))))"

section \<open>The settings route and the settings form (patch-notification-prefs.py)\<close>

text \<open>
  A row of the \<open>users\<close> table as the database driver returns it: the columns in order,
  each with its value. The route names the columns \<open>id\<close>, \<open>deleted_at\<close>,
  \<open>ship_to_country\<close>, \<open>timezone\<close>, \<open>weekly_digest_enabled\<close>,
  \<open>still_available_reminders\<close>, \<open>updated_at\<close> and \<open>password_hash\<close>.
\<close>

type_synonym user_row = "(string \<times> jsval) list"

text \<open>\<open>SET col = value\<close> on one row: the column keeps its place and takes the value.\<close>

definition set_column :: "string \<Rightarrow> jsval \<Rightarrow> user_row \<Rightarrow> user_row" where
  "set_column col v row = map (\<lambda>(k, old). if k = col then (k, v) else (k, old)) row"

definition set_columns :: "(string \<times> jsval) list \<Rightarrow> user_row \<Rightarrow> user_row" where
  "set_columns assignments row = foldl (\<lambda>r (col, v). set_column col v r) row assignments"

text \<open>\<open>WHERE id = $n AND deleted_at IS NULL\<close>\<close>

definition users_where :: "int \<Rightarrow> user_row \<Rightarrow> bool" where
  "users_where i row = (get_field row ''id'' = JNum i \<and> get_field row ''deleted_at'' = JNull)"

text \<open>
  \<open>UPDATE users SET ... WHERE ... RETURNING *\<close>: the new table and the rows returned
  (the updated rows, all columns); \<open>None\<close> when the query rejects.
\<close>

definition update_users ::
  "bool \<Rightarrow> (string \<times> jsval) list \<Rightarrow> int \<Rightarrow> user_row list
     \<Rightarrow> (user_row list \<times> user_row list) option" where
  "update_users db_up assignments i tbl =
     (if db_up
      then Some (map (\<lambda>r. if users_where i r then set_columns assignments r else r) tbl,
                 map (set_columns assignments) (filter (users_where i) tbl))
      else None)"

text \<open>
  The \<open>if (x !== undefined) { updates.push(...); values.push(x); }\<close> blocks, in the
  order of the source: the assignments the SET clause will make.
\<close>

definition collect_updates :: "(string \<times> jsval) list \<Rightarrow> (string \<times> jsval) list" where
  "collect_updates body =
     filter (\<lambda>(col, v). v \<noteq> JUndefined)
       (map (\<lambda>col. (col, get_field body col))
          [''ship_to_country'', ''timezone'', ''weekly_digest_enabled'',
           ''still_available_reminders''])"

text \<open>\<open>const { password_hash: _, ...safeUser } = row\<close>\<close>

definition safeUser :: "user_row \<Rightarrow> user_row" where
  "safeUser row = filter (\<lambda>(k, v). k \<noteq> ''password_hash'') row"

text \<open>\<open>router.patch('/:id', ...)\<close>, the settings route the patch adds to users.ts.\<close>

definition users_patch_route ::
  "bool \<Rightarrow> int \<Rightarrow> string \<Rightarrow> (string \<times> jsval) list \<Rightarrow> user_row list
     \<Rightarrow> response \<times> user_row list" where
  "users_patch_route db_up now id_param body tbl =
     (case parseInt10 id_param of
        None \<Rightarrow> (Response 400 (error_json ''Invalid user ID''), tbl)
      | Some i \<Rightarrow>
          (let updates = collect_updates body in
           if updates = []
           then (Response 400 (error_json ''No fields to update''), tbl)
           else (case update_users db_up (updates @ [(''updated_at'', JNum now)]) i tbl of
                   None \<Rightarrow> (Response 500 (error_json ''Failed to update user settings''), tbl)
                 | Some (tbl', rows) \<Rightarrow>
                     (case rows of
                        [] \<Rightarrow> (Response 404 (error_json ''User not found''), tbl')
                      | row # rest \<Rightarrow> (Response 200 (JObj (safeUser row)), tbl')))))"

text \<open>
  The settings form. The inserted markup gives \<open>settings-weekly-digest\<close> the
  \<open>checked\<close> attribute and \<open>settings-still-available\<close> none; on opening the form the
  patched loader assigns \<open>state.user.weekly_digest_enabled ?? true\<close> and
  \<open>state.user.still_available_reminders ?? false\<close> to the two \<open>checked\<close> properties,
  which convert the value to a boolean.
\<close>

record checkboxes =
  settings_weekly_digest :: bool
  settings_still_available :: bool

definition notification_ui_initial :: checkboxes where
  "notification_ui_initial =
     \<lparr>settings_weekly_digest = True, settings_still_available = False\<rparr>"

definition load_settings :: "(string \<times> jsval) list \<Rightarrow> checkboxes \<Rightarrow> checkboxes" where
  "load_settings user form =
     form\<lparr>settings_weekly_digest :=
            truthy (nullish (get_field user ''weekly_digest_enabled'') (JBool True)),
          settings_still_available :=
            truthy (nullish (get_field user ''still_available_reminders'') (JBool False))\<rparr>"

section \<open>Currency symbol and country on the detail pages (v30_frontend_patch.py)\<close>

text \<open>
  What \<open>localStorage.getItem('scoutloot_user')\<close> followed by \<open>JSON.parse\<close> can give:
  the read itself throws; the item is \<open>null\<close> or the empty string (falsy); the text is
  not JSON (\<open>JSON.parse\<close> throws); or a value is parsed.
\<close>

datatype stored = Unavailable | Absent | Malformed | Parsed jsval

text \<open>
  Property access \<open>v.k\<close> for a property name that no prototype defines: a TypeError
  (\<open>None\<close>) on \<open>undefined\<close> and \<open>null\<close>, the field of an object, \<open>undefined\<close> on
  every other value.
\<close>

definition get_prop :: "jsval \<Rightarrow> string \<Rightarrow> jsval option" where
  "get_prop v k =
     (case v of
        JUndefined \<Rightarrow> None
      | JNull \<Rightarrow> None
      | JObj fs \<Rightarrow> Some (get_field fs k)
      | _ \<Rightarrow> Some JUndefined)"

text \<open>
  \<open>String.prototype.toUpperCase\<close>. The ASCII letters go to their capitals. Beyond
  ASCII, seventeen code points have an upper case that contains an ASCII letter (among
  them U+0131, which gives \<open>I\<close>, and U+017F, which gives \<open>S\<close>); \<open>special_upper\<close>
  lists them, source and result in UTF-8. Every other code point beyond ASCII is left as
  it is: its upper case is again outside ASCII, so that no comparison of the result with
  an ASCII text is changed. \<open>v.toUpperCase()\<close> is a TypeError unless \<open>v\<close> is a
  string.
\<close>

definition upper_char :: "char \<Rightarrow> char" where
  "upper_char c =
     (if (97::nat) \<le> of_char c \<and> (of_char c :: nat) \<le> 122
      then char_of ((of_char c :: nat) - 32) else c)"

definition special_upper :: "(string \<times> string) list" where
  "special_upper =
     [([CHR 0xC3, CHR 0x9F], ''SS''),
      ([CHR 0xC4, CHR 0xB1], ''I''),
      ([CHR 0xC5, CHR 0x89], [CHR 0xCA, CHR 0xBC, CHR ''N'']),
      ([CHR 0xC5, CHR 0xBF], ''S''),
      ([CHR 0xC7, CHR 0xB0], [CHR ''J'', CHR 0xCC, CHR 0x8C]),
      ([CHR 0xE1, CHR 0xBA, CHR 0x96], [CHR ''H'', CHR 0xCC, CHR 0xB1]),
      ([CHR 0xE1, CHR 0xBA, CHR 0x97], [CHR ''T'', CHR 0xCC, CHR 0x88]),
      ([CHR 0xE1, CHR 0xBA, CHR 0x98], [CHR ''W'', CHR 0xCC, CHR 0x8A]),
      ([CHR 0xE1, CHR 0xBA, CHR 0x99], [CHR ''Y'', CHR 0xCC, CHR 0x8A]),
      ([CHR 0xE1, CHR 0xBA, CHR 0x9A], [CHR ''A'', CHR 0xCA, CHR 0xBE]),
      ([CHR 0xEF, CHR 0xAC, CHR 0x80], ''FF''),
      ([CHR 0xEF, CHR 0xAC, CHR 0x81], ''FI''),
      ([CHR 0xEF, CHR 0xAC, CHR 0x82], ''FL''),
      ([CHR 0xEF, CHR 0xAC, CHR 0x83], ''FFI''),
      ([CHR 0xEF, CHR 0xAC, CHR 0x84], ''FFL''),
      ([CHR 0xEF, CHR 0xAC, CHR 0x85], ''ST''),
      ([CHR 0xEF, CHR 0xAC, CHR 0x86], ''ST'')]"

fun toUpperCase :: "string \<Rightarrow> string" where
  "toUpperCase [] = []"
| "toUpperCase (c # cs) =
     (case find (\<lambda>(src, dst). prefix src (c # cs)) special_upper of
        Some (src, dst) \<Rightarrow> dst @ toUpperCase (drop (length src - 1) cs)
      | None \<Rightarrow> upper_char c # toUpperCase cs)"

definition call_toUpperCase :: "jsval \<Rightarrow> string option" where
  "call_toUpperCase v = (case v of JStr s \<Rightarrow> Some (toUpperCase s) | _ \<Rightarrow> None)"

definition euro_sign :: string where
  "euro_sign = [CHR 0xE2, CHR 0x82, CHR 0xAC]"

definition pound_sign :: string where
  "pound_sign = [CHR 0xC2, CHR 0xA3]"

text \<open>
  The \<open>try\<close> block of \<open>getCurrencySymbol\<close> (set.html): \<open>Inl ()\<close> when it throws,
  \<open>Inr (Some s)\<close> when it returns \<open>s\<close>, \<open>Inr None\<close> when it runs to its end.
\<close>

definition getCurrencySymbol_try :: "stored \<Rightarrow> unit + string option" where
  "getCurrencySymbol_try st =
     (case st of
        Unavailable \<Rightarrow> Inl ()
      | Absent \<Rightarrow> Inr None
      | Malformed \<Rightarrow> Inl ()
      | Parsed user \<Rightarrow>
          (case get_prop user ''ship_to_country'' of
             None \<Rightarrow> Inl ()
           | Some v \<Rightarrow>
               (case call_toUpperCase (js_or v (JStr [])) of
                  None \<Rightarrow> Inl ()
                | Some country \<Rightarrow>
                    if country = ''US'' then Inr (Some ''$'')
                    else if country = ''CA'' then Inr (Some ''C$'')
                    else if country = ''GB'' then Inr (Some pound_sign)
                    else Inr None)))"

definition getCurrencySymbol :: "stored \<Rightarrow> string" where
  "getCurrencySymbol st =
     (case getCurrencySymbol_try st of Inr (Some s) \<Rightarrow> s | _ \<Rightarrow> euro_sign)"

text \<open>\<open>getUserCountry\<close> (minifig.html): the value sent to the history API as \<open>country\<close>.\<close>

definition getUserCountry_try :: "stored \<Rightarrow> unit + jsval option" where
  "getUserCountry_try st =
     (case st of
        Unavailable \<Rightarrow> Inl ()
      | Absent \<Rightarrow> Inr None
      | Malformed \<Rightarrow> Inl ()
      | Parsed user \<Rightarrow>
          (case get_prop user ''ship_to_country'' of
             None \<Rightarrow> Inl ()
           | Some v \<Rightarrow> Inr (Some (js_or v (JStr ''US'')))))"

definition getUserCountry :: "stored \<Rightarrow> jsval" where
  "getUserCountry st =
     (case getUserCountry_try st of Inr (Some v) \<Rightarrow> v | _ \<Rightarrow> JStr ''US'')"

section \<open>The forgot-password handler (fix_password_reset_js.py, patch_password_reset.py)\<close>






section \<open>Python strings and files\<close>

text \<open>
  The scripts work on \<open>str\<close> values. A string is the list of the bytes of its UTF-8
  encoding; substring search and replacement on the bytes agree with Python's on the code
  points, since no encoding of a code point occurs inside the encoding of another.
\<close>

definition newline :: string where
  "newline = [CHR 0x0A]"

text \<open>A multi-line literal, line by line: \<open>'\n'.join(lines)\<close>.\<close>

fun lines_text :: "string list \<Rightarrow> string" where
  "lines_text [] = []"
| "lines_text [l] = l"
| "lines_text (l # m # ls) = l @ newline @ lines_text (m # ls)"

text \<open>\<open>pat in s\<close>\<close>

fun contains :: "string \<Rightarrow> string \<Rightarrow> bool" where
  "contains pat [] = (pat = [])"
| "contains pat (c # cs) = (prefix pat (c # cs) \<or> contains pat cs)"

text \<open>
  \<open>s.replace(old, new)\<close>: every occurrence of \<open>old\<close>, found from the left and not
  overlapping, becomes \<open>new\<close>. With an empty \<open>old\<close> Python puts \<open>new\<close> before every
  character and at the end.
\<close>

fun replace_nonempty :: "string \<Rightarrow> string \<Rightarrow> string \<Rightarrow> string" where
  "replace_nonempty old new [] = []"
| "replace_nonempty old new (c # cs) =
     (if old \<noteq> [] \<and> prefix old (c # cs)
      then new @ replace_nonempty old new (drop (length old - 1) cs)
      else c # replace_nonempty old new cs)"

definition str_replace :: "string \<Rightarrow> string \<Rightarrow> string \<Rightarrow> string" where
  "str_replace old new s =
     (if old = [] then new @ concat (map (\<lambda>c. c # new) s) else replace_nonempty old new s)"


text \<open>
  The file system: the files that exist, each path with its text. Reading a missing file
  raises \<open>FileNotFoundError\<close>; writing creates or replaces the file; \<open>shutil.copy\<close>
  reads the source and writes the destination.
\<close>

type_synonym path = string
type_synonym files = "(path \<times> string) list"

datatype py_error = FileNotFoundError path

fun write_text :: "path \<Rightarrow> string \<Rightarrow> files \<Rightarrow> files" where
  "write_text p c [] = [(p, c)]"
| "write_text p c ((q, d) # fs) = (if q = p then (p, c) # fs else (q, d) # write_text p c fs)"

definition read_text :: "files \<Rightarrow> path \<Rightarrow> py_error + string" where
  "read_text fs p = (case map_of fs p of None \<Rightarrow> Inl (FileNotFoundError p) | Some c \<Rightarrow> Inr c)"

definition exists :: "files \<Rightarrow> path \<Rightarrow> bool" where
  "exists fs p = (map_of fs p \<noteq> None)"

definition copy :: "path \<Rightarrow> path \<Rightarrow> files \<Rightarrow> py_error + files" where
  "copy src dst fs =
     (case map_of fs src of
        None \<Rightarrow> Inl (FileNotFoundError src)
      | Some c \<Rightarrow> Inr (write_text dst c fs))"

text \<open>
  How a run of a script ends: \<open>main\<close> returns a status that is passed to \<open>exit\<close>, or
  returns nothing, or calls \<open>sys.exit\<close>, or an exception leaves it uncaught.
\<close>

datatype outcome = Returned nat | Finished | SysExit nat | Raised py_error

fun exit_status :: "outcome \<Rightarrow> nat" where
  "exit_status (Returned n) = n"
| "exit_status Finished = 0"
| "exit_status (SysExit n) = n"
| "exit_status (Raised e) = 1"

section \<open>v30_frontend_patch.py\<close>

definition BASE_DIR :: path where
  "BASE_DIR = ''/var/www/scoutloot/app''"

text \<open>\<open>os.path.join(BASE_DIR, rel)\<close> for a relative \<open>rel\<close>.\<close>

definition path_join :: "path \<Rightarrow> path \<Rightarrow> path" where
  "path_join dir rel = dir @ ''/'' @ rel"

definition set_html :: path where
  "set_html = path_join BASE_DIR ''public/set.html''"

definition minifig_html :: path where
  "minifig_html = path_join BASE_DIR ''public/minifig.html''"

definition set_html_bak :: path where
  "set_html_bak = path_join BASE_DIR ''public/set.html.bak.v29''"

definition minifig_html_bak :: path where
  "minifig_html_bak = path_join BASE_DIR ''public/minifig.html.bak.v29''"

definition set_helper_code :: string where
  \<open>set_helper_code = lines_text
    [''let priceChart = null;'',
     ''    let currencySymbol = '' @ [CHR 0x27, CHR 0xE2, CHR 0x82, CHR 0xAC, CHR 0x27] @ ''; // V30: Dynamic currency symbol'',
     ''    '',
     ''    // V30: Get currency symbol based on user country'',
     ''    function getCurrencySymbol() {'',
     ''      try {'',
     ''        const userData = localStorage.getItem('scoutloot_user');'',
     ''        if (userData) {'',
     ''          const user = JSON.parse(userData);'',
     ''          const country = (user.ship_to_country || '' @ [CHR 0x27, CHR 0x27] @ '').toUpperCase();'',
     ''          if (country === 'US') return '$';'',
     ''          if (country === 'CA') return 'C$';'',
     ''          if (country === 'GB') return '' @ [CHR 0x27, CHR 0xC2, CHR 0xA3, CHR 0x27] @ '';'',
     ''        }'',
     ''      } catch (e) {}'',
     ''      return '' @ [CHR 0x27, CHR 0xE2, CHR 0x82, CHR 0xAC, CHR 0x27] @ '';'',
     ''    }'',
     ''    currencySymbol = getCurrencySymbol();'']\<close>

definition minifig_helper_code :: string where
  \<open>minifig_helper_code = lines_text
    [''let priceChart = null;'',
     ''    let currencySymbol = '' @ [CHR 0x27, CHR 0xE2, CHR 0x82, CHR 0xAC, CHR 0x27] @ ''; // V30: Updated from API response'',
     ''    '',
     ''    // V30: Get user country for API calls'',
     ''    function getUserCountry() {'',
     ''      try {'',
     ''        const userData = localStorage.getItem('scoutloot_user');'',
     ''        if (userData) {'',
     ''          const user = JSON.parse(userData);'',
     ''          return user.ship_to_country || 'US';'',
     ''        }'',
     ''      } catch (e) {}'',
     ''      return 'US';'',
     ''    }'']\<close>

definition hardcoded_y_axis :: string where
  \<open>hardcoded_y_axis = ''return '' @ [CHR 0x27, CHR 0xE2, CHR 0x82, CHR 0xAC, CHR 0x27] @ '' + value;''\<close>

text \<open>The three replacements of \<open>patch_set_html\<close>, in order.\<close>

definition patch_set_content :: "string \<Rightarrow> string" where
  \<open>patch_set_content content0 =
     (let content1 = str_replace ''let priceChart = null;'' set_helper_code content0;
          content2 = str_replace
            (''${context.dataset.label}: '' @ [CHR 0xE2, CHR 0x82, CHR 0xAC] @ ''${context.raw.toFixed(2)}'')
            ''${context.dataset.label}: ${currencySymbol}${context.raw.toFixed(2)}'' content1;
          content3 = str_replace hardcoded_y_axis ''return currencySymbol + value;'' content2
      in content3)\<close>

definition v30_patch_set_html :: "files \<Rightarrow> py_error + files" where
  "v30_patch_set_html fs =
     (case read_text fs set_html of
        Inl e \<Rightarrow> Inl e
      | Inr content \<Rightarrow> Inr (write_text set_html (patch_set_content content) fs))"

text \<open>The five replacements of \<open>patch_minifig_html\<close>, in order.\<close>

definition patch_minifig_content :: "string \<Rightarrow> string" where
  \<open>patch_minifig_content content0 =
     (let content1 = str_replace ''let priceChart = null;'' minifig_helper_code content0;
          content2 = str_replace ''/api/minifigs/${figNum}/history?days=${days}`''
            ''/api/minifigs/${figNum}/history?days=${days}&country=${getUserCountry()}`'' content1;
          content3 = str_replace ''const history = await response.json();''
            (lines_text
              [''const history = await response.json();'',
               ''        currencySymbol = history.symbol || '' @ [CHR 0x27, CHR 0xE2, CHR 0x82, CHR 0xAC, CHR 0x27] @ ''; // V30: Use API symbol''])
            content2;
          content4 = str_replace
            (''${context.dataset.label}: '' @ [CHR 0xE2, CHR 0x82, CHR 0xAC] @ ''${context.raw.y.toFixed(2)}'')
            ''${context.dataset.label}: ${currencySymbol}${context.raw.y.toFixed(2)}'' content3;
          content5 = str_replace hardcoded_y_axis ''return currencySymbol + value;'' content4
      in content5)\<close>

definition v30_patch_minifig_html :: "files \<Rightarrow> py_error + files" where
  "v30_patch_minifig_html fs =
     (case read_text fs minifig_html of
        Inl e \<Rightarrow> Inl e
      | Inr content \<Rightarrow> Inr (write_text minifig_html (patch_minifig_content content) fs))"

text \<open>\<open>verify_patches\<close>: the list of error messages, empty when every check passes.\<close>

definition set_errors :: "string \<Rightarrow> string list" where
  \<open>set_errors set_content =
     (if \<not> contains ''currencySymbol'' set_content
      then [''set.html: currencySymbol not found''] else [])
     @ (if \<not> contains ''getCurrencySymbol'' set_content
        then [''set.html: getCurrencySymbol function not found''] else [])
     @ (if contains hardcoded_y_axis set_content
        then [''set.html: hardcoded '' @ [CHR 0xE2, CHR 0x82, CHR 0xAC] @ '' still in Y-axis'']
        else [])\<close>

definition minifig_errors :: "string \<Rightarrow> string list" where
  \<open>minifig_errors minifig_content =
     (if \<not> contains ''getUserCountry'' minifig_content
      then [''minifig.html: getUserCountry function not found''] else [])
     @ (if \<not> contains ''country=${getUserCountry()}'' minifig_content
        then [''minifig.html: country parameter not in API call''] else [])
     @ (if \<not> contains ''history.symbol'' minifig_content
        then [''minifig.html: symbol from API not used''] else [])
     @ (if contains hardcoded_y_axis minifig_content
        then [''minifig.html: hardcoded '' @ [CHR 0xE2, CHR 0x82, CHR 0xAC] @ '' still in Y-axis'']
        else [])\<close>

definition verify_patches :: "files \<Rightarrow> py_error + string list" where
  "verify_patches fs =
     (case read_text fs set_html of
        Inl e \<Rightarrow> Inl e
      | Inr set_content \<Rightarrow>
          (case read_text fs minifig_html of
             Inl e \<Rightarrow> Inl e
           | Inr minifig_content \<Rightarrow> Inr (set_errors set_content @ minifig_errors minifig_content)))"

text \<open>
  \<open>main\<close> of v30_frontend_patch.py: the existence check, the two backups, the two
  patches, the verification and, on errors, the rollback. The result is how the run ends
  and the files afterwards.
\<close>

definition v30_rollback :: "files \<Rightarrow> outcome \<times> files" where
  "v30_rollback fs =
     (case copy set_html_bak set_html fs of
        Inl e \<Rightarrow> (Raised e, fs)
      | Inr fs1 \<Rightarrow>
          (case copy minifig_html_bak minifig_html fs1 of
             Inl e \<Rightarrow> (Raised e, fs1)
           | Inr fs2 \<Rightarrow> (SysExit 1, fs2)))"

definition v30_main :: "files \<Rightarrow> outcome \<times> files" where
  "v30_main fs =
     (if \<not> exists fs set_html then (SysExit 1, fs)
      else
       (case copy set_html set_html_bak fs of
          Inl e \<Rightarrow> (Raised e, fs)
        | Inr fs1 \<Rightarrow>
       (case copy minifig_html minifig_html_bak fs1 of
          Inl e \<Rightarrow> (Raised e, fs1)
        | Inr fs2 \<Rightarrow>
       (case v30_patch_set_html fs2 of
          Inl e \<Rightarrow> (Raised e, fs2)
        | Inr fs3 \<Rightarrow>
       (case v30_patch_minifig_html fs3 of
          Inl e \<Rightarrow> (Raised e, fs3)
        | Inr fs4 \<Rightarrow>
       (case verify_patches fs4 of
          Inl e \<Rightarrow> (Raised e, fs4)
        | Inr errors \<Rightarrow>
            if errors \<noteq> [] then v30_rollback fs4 else (Finished, fs4)))))))"

section \<open>v29_patch.py: backup_file, patch_app_js, patch_watches_ts\<close>












section \<open>fix_password_reset_js.py\<close>















section \<open>public/patch-index-html.py\<close>








section \<open>Properties of the bulk-condition route\<close>

lemma valid_condition_is_string:
  "\<not> invalid_condition c \<Longrightarrow> \<exists>s. c = JStr s \<and> s \<in> {''new'', ''used'', ''any''}"
  by (cases c) (auto simp: invalid_condition_def js_includes_def)

lemma invalid_condition_JStr:
  "invalid_condition (JStr s) \<longleftrightarrow> s \<notin> {''new'', ''used'', ''any''}"
  by (auto simp: invalid_condition_def js_includes_def)

lemma parseInt10_7: "parseInt10 ''7'' = Some 7"
  by (simp add: parseInt10_def white1_def is_digit_def digits_value_def)

lemma parseInt10_abc: "parseInt10 ''abc'' = None"
  by (simp add: parseInt10_def white1_def white3_def white2_def is_digit_def)

lemma get_condition_used:
  "get_field [(''condition'', JStr ''used'')] ''condition'' = JStr ''used''"
  by (simp add: get_field_def)

text \<open>
  The route on a well-formed request whose query resolves: what it answers and what it
  leaves in the table.
\<close>

lemma bulk_condition_route_ok:
  assumes "parseInt10 userId_param = Some u"
    and "c \<in> {''new'', ''used'', ''any''}"
    and "get_field body ''condition'' = JStr c"
  shows "bulk_condition_route True now userId_param body tbl =
      (Response 200 (JObj [(''success'', JBool True),
          (''updated'', JNum (int (length (filter (where_clause u) tbl)))),
          (''condition'', JStr c)]),
       map (\<lambda>w. if where_clause u w then w\<lparr>condition := c, updated_at := now\<rparr> else w) tbl)"
proof -
  have "\<not> invalid_condition (JStr c)"
    using assms(2) by (simp add: invalid_condition_JStr)
  with assms(1,3) show ?thesis
    by (simp add: bulk_condition_route_def update_watches_def)
qed

text \<open>
  C1. For every user id \<open>u\<close> and every condition \<open>c\<close> among new, used and any, the
  bulk-condition route (its query resolving) answers 200 with \<open>updated\<close> the number of
  watches of \<open>u\<close> whose status is active; the table keeps its length; every active watch
  of \<open>u\<close> has its condition set to \<open>c\<close> (and \<open>updated_at\<close> to the clock), every other
  watch is exactly as it was; and when \<open>u\<close> has no active watch the answer is still the
  200 success, with \<open>updated\<close> 0.
\<close>

theorem bulk_condition_sets_every_active_watch:
  assumes uid: "parseInt10 userId_param = Some u"
    and c: "c \<in> {''new'', ''used'', ''any''}"
    and body: "get_field body ''condition'' = JStr c"
  shows "fst (bulk_condition_route True now userId_param body tbl) =
           Response 200 (JObj [(''success'', JBool True),
              (''updated'', JNum (int (length
                  (filter (\<lambda>w. user_id w = u \<and> status w = ''active'') tbl)))),
              (''condition'', JStr c)])
       \<and> length (snd (bulk_condition_route True now userId_param body tbl)) = length tbl
       \<and> (\<forall>i < length tbl.
            snd (bulk_condition_route True now userId_param body tbl) ! i =
              (if user_id (tbl ! i) = u \<and> status (tbl ! i) = ''active''
               then (tbl ! i)\<lparr>condition := c, updated_at := now\<rparr> else tbl ! i))
       \<and> ((\<forall>w \<in> set tbl. \<not> (user_id w = u \<and> status w = ''active'')) \<longrightarrow>
            fst (bulk_condition_route True now userId_param body tbl) =
              Response 200 (JObj [(''success'', JBool True), (''updated'', JNum 0),
                (''condition'', JStr c)]))"
proof -
  have wc: "where_clause u = (\<lambda>w. user_id w = u \<and> status w = ''active'')"
    by (rule ext) (simp add: where_clause_def)
  note route = bulk_condition_route_ok [OF uid c body, of now tbl]
  have none: "(\<forall>w \<in> set tbl. \<not> (user_id w = u \<and> status w = ''active'')) \<Longrightarrow>
      filter (where_clause u) tbl = []"
    by (simp add: wc filter_empty_conv)
  show ?thesis
    unfolding route using none by (simp add: wc)
qed

theorem bulk_condition_sets_every_active_watch_witness:
  "fst (bulk_condition_route True 5 ''7'' [(''condition'', JStr ''used'')]
      [\<lparr>watch_id = 1, user_id = 7, condition = ''new'', status = ''active'', updated_at = 0\<rparr>,
       \<lparr>watch_id = 2, user_id = 8, condition = ''new'', status = ''active'', updated_at = 0\<rparr>]) =
     Response 200 (JObj [(''success'', JBool True), (''updated'', JNum 1),
       (''condition'', JStr ''used'')])
   \<and> snd (bulk_condition_route True 5 ''7'' [(''condition'', JStr ''used'')]
      [\<lparr>watch_id = 1, user_id = 7, condition = ''new'', status = ''active'', updated_at = 0\<rparr>,
       \<lparr>watch_id = 2, user_id = 8, condition = ''new'', status = ''active'', updated_at = 0\<rparr>]) ! 0 =
      \<lparr>watch_id = 1, user_id = 7, condition = ''used'', status = ''active'', updated_at = 5\<rparr>
   \<and> snd (bulk_condition_route True 5 ''7'' [(''condition'', JStr ''used'')]
      [\<lparr>watch_id = 1, user_id = 7, condition = ''new'', status = ''active'', updated_at = 0\<rparr>,
       \<lparr>watch_id = 2, user_id = 8, condition = ''new'', status = ''active'', updated_at = 0\<rparr>]) ! 1 =
      \<lparr>watch_id = 2, user_id = 8, condition = ''new'', status = ''active'', updated_at = 0\<rparr>"
  using bulk_condition_sets_every_active_watch [OF parseInt10_7 _ get_condition_used, of 5
      "[\<lparr>watch_id = 1, user_id = 7, condition = ''new'', status = ''active'', updated_at = 0\<rparr>,
        \<lparr>watch_id = 2, user_id = 8, condition = ''new'', status = ''active'', updated_at = 0\<rparr>]"]
  by (simp add: less_Suc_eq numeral_2_eq_2)

text \<open>
  C2 as stated fails: a user with one active watch asks twice for used. The first call
  succeeds and reports 1; the second call, on the table the first one left, reports 1
  again, not 0: the WHERE clause does not look at the condition a row already has.
\<close>

theorem bulk_condition_second_count_counterexample:
  "bulk_condition_route True 1 ''7'' [(''condition'', JStr ''used'')]
      [\<lparr>watch_id = 1, user_id = 7, condition = ''new'', status = ''active'', updated_at = 0\<rparr>] =
     (Response 200 (JObj [(''success'', JBool True), (''updated'', JNum 1),
        (''condition'', JStr ''used'')]),
      [\<lparr>watch_id = 1, user_id = 7, condition = ''used'', status = ''active'', updated_at = 1\<rparr>])
   \<and> fst (bulk_condition_route True 2 ''7'' [(''condition'', JStr ''used'')]
      [\<lparr>watch_id = 1, user_id = 7, condition = ''used'', status = ''active'', updated_at = 1\<rparr>]) =
     Response 200 (JObj [(''success'', JBool True), (''updated'', JNum 1),
       (''condition'', JStr ''used'')])"
  by (simp add: bulk_condition_route_def parseInt10_7 get_condition_used
      invalid_condition_JStr update_watches_def where_clause_def)

text \<open>
  C2 amended. When bulkSetCondition(user, c) is applied twice in a row and both queries
  resolve, the second call answers exactly as the first: 200 with \<open>updated\<close> the number
  of active watches of the user (the rows the WHERE clause selects, whatever their
  condition), which is 0 only when the user has no active watch. The second call leaves
  every condition as the first call left it; it only stamps \<open>updated_at\<close> again on the
  selected rows.
\<close>

theorem bulk_condition_twice:
  assumes uid: "parseInt10 userId_param = Some u"
    and c: "c \<in> {''new'', ''used'', ''any''}"
    and body: "get_field body ''condition'' = JStr c"
    and first: "bulk_condition_route True now1 userId_param body tbl = (r1, tbl1)"
    and second: "bulk_condition_route True now2 userId_param body tbl1 = (r2, tbl2)"
  shows "r2 = r1
       \<and> r2 = Response 200 (JObj [(''success'', JBool True),
              (''updated'', JNum (int (length (filter (where_clause u) tbl)))),
              (''condition'', JStr c)])
       \<and> map condition tbl2 = map condition tbl1
       \<and> tbl2 = map (\<lambda>w. if where_clause u w then w\<lparr>updated_at := now2\<rparr> else w) tbl1
       \<and> (length (filter (where_clause u) tbl) = 0 \<longleftrightarrow> (\<forall>w \<in> set tbl. \<not> where_clause u w))"
proof -
  note route = bulk_condition_route_ok [OF uid c body]
  have r1: "r1 = Response 200 (JObj [(''success'', JBool True),
          (''updated'', JNum (int (length (filter (where_clause u) tbl)))),
          (''condition'', JStr c)])"
    and t1: "tbl1 =
      map (\<lambda>w. if where_clause u w then w\<lparr>condition := c, updated_at := now1\<rparr> else w) tbl"
    using first by (simp_all add: route)
  have r2: "r2 = Response 200 (JObj [(''success'', JBool True),
          (''updated'', JNum (int (length (filter (where_clause u) tbl1)))),
          (''condition'', JStr c)])"
    and t2: "tbl2 =
      map (\<lambda>w. if where_clause u w then w\<lparr>condition := c, updated_at := now2\<rparr> else w) tbl1"
    using second by (simp_all add: route)
  have cnt: "length (filter (where_clause u) tbl1) = length (filter (where_clause u) tbl)"
    unfolding t1 by (induction tbl) (simp_all add: where_clause_def)
  have same: "tbl2 = map (\<lambda>w. if where_clause u w then w\<lparr>updated_at := now2\<rparr> else w) tbl1"
    unfolding t2 t1 by (auto simp: where_clause_def)
  have conds: "map condition tbl2 = map condition tbl1"
    unfolding same by (simp add: comp_def)
  show ?thesis
    using r1 r2 cnt same conds by (simp add: filter_empty_conv)
qed

theorem bulk_condition_twice_witness:
  "Response 200 (JObj [(''success'', JBool True), (''updated'', JNum 1),
       (''condition'', JStr ''used'')]) =
     Response 200 (JObj [(''success'', JBool True),
       (''updated'', JNum (int (length (filter (where_clause 7)
          [\<lparr>watch_id = 1, user_id = 7, condition = ''new'', status = ''active'',
             updated_at = 0\<rparr>])))),
       (''condition'', JStr ''used'')])
   \<and> map condition
       [\<lparr>watch_id = 1, user_id = 7, condition = ''used'', status = ''active'', updated_at = 2\<rparr>] =
     map condition
       [\<lparr>watch_id = 1, user_id = 7, condition = ''used'', status = ''active'', updated_at = 1\<rparr>]"
proof -
  have first: "bulk_condition_route True 1 ''7'' [(''condition'', JStr ''used'')]
      [\<lparr>watch_id = 1, user_id = 7, condition = ''new'', status = ''active'', updated_at = 0\<rparr>] =
     (Response 200 (JObj [(''success'', JBool True), (''updated'', JNum 1),
        (''condition'', JStr ''used'')]),
      [\<lparr>watch_id = 1, user_id = 7, condition = ''used'', status = ''active'', updated_at = 1\<rparr>])"
    by (simp add: bulk_condition_route_def parseInt10_7 get_condition_used
        invalid_condition_JStr update_watches_def where_clause_def)
  have second: "bulk_condition_route True 2 ''7'' [(''condition'', JStr ''used'')]
      [\<lparr>watch_id = 1, user_id = 7, condition = ''used'', status = ''active'', updated_at = 1\<rparr>] =
     (Response 200 (JObj [(''success'', JBool True), (''updated'', JNum 1),
        (''condition'', JStr ''used'')]),
      [\<lparr>watch_id = 1, user_id = 7, condition = ''used'', status = ''active'', updated_at = 2\<rparr>])"
    by (simp add: bulk_condition_route_def parseInt10_7 get_condition_used
        invalid_condition_JStr update_watches_def where_clause_def)
  have c: "''used'' \<in> {''new'', ''used'', ''any''}" by simp
  from bulk_condition_twice [OF parseInt10_7 c get_condition_used first second]
  show ?thesis by blast
qed

lemma parseInt10_12abc: "parseInt10 ''12abc'' = Some 12"
  by (simp add: parseInt10_def white1_def white2_def white3_def is_digit_def digits_value_def)

lemma parseInt10_decimal: "parseInt10 ''7.9'' = Some 7"
  by (simp add: parseInt10_def white1_def white2_def white3_def is_digit_def digits_value_def)

text \<open>
  C7 as stated fails: the user id \<open>12abc\<close> is not a number (not every character of it
  is a digit), and the request is not rejected. \<open>parseInt\<close> reads the leading \<open>12\<close>,
  the route answers 200 and the active watch of user 12 is rewritten.
\<close>

theorem bulk_condition_numeric_prefix_counterexample:
  "\<not> list_all is_digit ''12abc''
   \<and> bulk_condition_route True 5 ''12abc'' [(''condition'', JStr ''used'')]
      [\<lparr>watch_id = 1, user_id = 12, condition = ''new'', status = ''active'', updated_at = 0\<rparr>] =
     (Response 200 (JObj [(''success'', JBool True), (''updated'', JNum 1),
        (''condition'', JStr ''used'')]),
      [\<lparr>watch_id = 1, user_id = 12, condition = ''used'', status = ''active'', updated_at = 5\<rparr>])"
  by (simp add: bulk_condition_route_def parseInt10_12abc get_condition_used
      invalid_condition_JStr update_watches_def where_clause_def is_digit_def)

text \<open>
  C7 amended. A bulk-condition request is answered with status 400 exactly when
  \<open>parseInt(userId, 10)\<close> is NaN (the user id, after leading white space and an
  optional sign, does not start with a decimal digit) or the condition is missing or
  outside new, used and any. Such a request leaves the watches table as it was, whether or
  not the store is reachable; more generally, whenever the route answers anything but 200
  the table is unchanged. A user id that only starts with digits is served as the number
  \<open>parseInt\<close> reads from it.
\<close>

theorem bulk_condition_rejects_malformed:
  "(status_code (fst (bulk_condition_route db_up now userId_param body tbl)) = 400
      \<longleftrightarrow> parseInt10 userId_param = None \<or> invalid_condition (get_field body ''condition''))
   \<and> (parseInt10 userId_param = None \<or> invalid_condition (get_field body ''condition'')
      \<longrightarrow> snd (bulk_condition_route db_up now userId_param body tbl) = tbl)
   \<and> (status_code (fst (bulk_condition_route db_up now userId_param body tbl)) \<noteq> 200
      \<longrightarrow> snd (bulk_condition_route db_up now userId_param body tbl) = tbl)
   \<and> (\<forall>u c. parseInt10 userId_param = Some u \<and> get_field body ''condition'' = JStr c
          \<and> c \<in> {''new'', ''used'', ''any''} \<and> db_up
      \<longrightarrow> bulk_condition_route db_up now userId_param body tbl =
          (Response 200 (JObj [(''success'', JBool True),
              (''updated'', JNum (int (length (filter (where_clause u) tbl)))),
              (''condition'', JStr c)]),
           map (\<lambda>w. if where_clause u w then w\<lparr>condition := c, updated_at := now\<rparr> else w)
             tbl))"
proof -
  have a: "status_code (fst (bulk_condition_route db_up now userId_param body tbl)) = 400
      \<longleftrightarrow> parseInt10 userId_param = None \<or> invalid_condition (get_field body ''condition'')"
    by (auto simp: bulk_condition_route_def update_watches_def Let_def
        split: option.splits jsval.splits)
  have b: "parseInt10 userId_param = None \<or> invalid_condition (get_field body ''condition'')
      \<longrightarrow> snd (bulk_condition_route db_up now userId_param body tbl) = tbl"
    by (auto simp: bulk_condition_route_def update_watches_def Let_def
        split: option.splits jsval.splits)
  have c: "status_code (fst (bulk_condition_route db_up now userId_param body tbl)) \<noteq> 200
      \<longrightarrow> snd (bulk_condition_route db_up now userId_param body tbl) = tbl"
    by (auto simp: bulk_condition_route_def update_watches_def Let_def
        split: option.splits jsval.splits)
  have d: "\<forall>u c. parseInt10 userId_param = Some u \<and> get_field body ''condition'' = JStr c
          \<and> c \<in> {''new'', ''used'', ''any''} \<and> db_up
      \<longrightarrow> bulk_condition_route db_up now userId_param body tbl =
          (Response 200 (JObj [(''success'', JBool True),
              (''updated'', JNum (int (length (filter (where_clause u) tbl)))),
              (''condition'', JStr c)]),
           map (\<lambda>w. if where_clause u w then w\<lparr>condition := c, updated_at := now\<rparr> else w)
             tbl)"
  proof (intro allI impI)
    fix u c
    assume h: "parseInt10 userId_param = Some u \<and> get_field body ''condition'' = JStr c
          \<and> c \<in> {''new'', ''used'', ''any''} \<and> db_up"
    from h have "db_up = True" by simp
    with h bulk_condition_route_ok [of userId_param u c body now tbl]
    show "bulk_condition_route db_up now userId_param body tbl =
          (Response 200 (JObj [(''success'', JBool True),
              (''updated'', JNum (int (length (filter (where_clause u) tbl)))),
              (''condition'', JStr c)]),
           map (\<lambda>w. if where_clause u w then w\<lparr>condition := c, updated_at := now\<rparr> else w)
             tbl)"
      by simp
  qed
  show ?thesis
    by (intro conjI) (rule a, rule b, rule c, rule d)
qed

theorem bulk_condition_rejects_malformed_witness:
  "parseInt10 ''abc'' = None
   \<and> status_code (fst (bulk_condition_route True 5 ''abc'' [(''condition'', JStr ''used'')]
        [\<lparr>watch_id = 1, user_id = 7, condition = ''new'', status = ''active'',
           updated_at = 0\<rparr>])) = 400
   \<and> snd (bulk_condition_route True 5 ''abc'' [(''condition'', JStr ''used'')]
        [\<lparr>watch_id = 1, user_id = 7, condition = ''new'', status = ''active'',
           updated_at = 0\<rparr>]) =
        [\<lparr>watch_id = 1, user_id = 7, condition = ''new'', status = ''active'', updated_at = 0\<rparr>]
   \<and> invalid_condition (get_field [(''condition'', JStr ''mint'')] ''condition'')
   \<and> status_code (fst (bulk_condition_route True 5 ''7'' [(''condition'', JStr ''mint'')]
        [\<lparr>watch_id = 1, user_id = 7, condition = ''new'', status = ''active'',
           updated_at = 0\<rparr>])) = 400
   \<and> snd (bulk_condition_route True 5 ''7'' [(''condition'', JStr ''mint'')]
        [\<lparr>watch_id = 1, user_id = 7, condition = ''new'', status = ''active'',
           updated_at = 0\<rparr>]) =
        [\<lparr>watch_id = 1, user_id = 7, condition = ''new'', status = ''active'', updated_at = 0\<rparr>]"
proof -
  have bad: "invalid_condition (get_field [(''condition'', JStr ''mint'')] ''condition'')"
    by (simp add: get_field_def invalid_condition_JStr)
  note abc = bulk_condition_rejects_malformed [of True 5 "''abc''"
      "[(''condition'', JStr ''used'')]"
      "[\<lparr>watch_id = 1, user_id = 7, condition = ''new'', status = ''active'', updated_at = 0\<rparr>]"]
  note mint = bulk_condition_rejects_malformed [of True 5 "''7''"
      "[(''condition'', JStr ''mint'')]"
      "[\<lparr>watch_id = 1, user_id = 7, condition = ''new'', status = ''active'', updated_at = 0\<rparr>]"]
  from abc [THEN conjunct1] parseInt10_abc
  have 1: "status_code (fst (bulk_condition_route True 5 ''abc'' [(''condition'', JStr ''used'')]
        [\<lparr>watch_id = 1, user_id = 7, condition = ''new'', status = ''active'',
           updated_at = 0\<rparr>])) = 400"
    by simp
  from abc [THEN conjunct2, THEN conjunct1] parseInt10_abc
  have 2: "snd (bulk_condition_route True 5 ''abc'' [(''condition'', JStr ''used'')]
        [\<lparr>watch_id = 1, user_id = 7, condition = ''new'', status = ''active'',
           updated_at = 0\<rparr>]) =
        [\<lparr>watch_id = 1, user_id = 7, condition = ''new'', status = ''active'', updated_at = 0\<rparr>]"
    by simp
  from mint [THEN conjunct1] bad
  have 3: "status_code (fst (bulk_condition_route True 5 ''7'' [(''condition'', JStr ''mint'')]
        [\<lparr>watch_id = 1, user_id = 7, condition = ''new'', status = ''active'',
           updated_at = 0\<rparr>])) = 400"
    by simp
  from mint [THEN conjunct2, THEN conjunct1] bad
  have 4: "snd (bulk_condition_route True 5 ''7'' [(''condition'', JStr ''mint'')]
        [\<lparr>watch_id = 1, user_id = 7, condition = ''new'', status = ''active'',
           updated_at = 0\<rparr>]) =
        [\<lparr>watch_id = 1, user_id = 7, condition = ''new'', status = ''active'', updated_at = 0\<rparr>]"
    by simp
  show ?thesis
    by (intro conjI) (rule parseInt10_abc, rule 1, rule 2, rule bad, rule 3, rule 4)
qed

section \<open>Properties of the settings route and the settings form\<close>

lemma parseInt10_1: "parseInt10 ''1'' = Some 1"
  by (simp add: parseInt10_def white1_def is_digit_def digits_value_def)

text \<open>
  C8. For every user record that has neither \<open>weekly_digest_enabled\<close> nor
  \<open>still_available_reminders\<close>, loading the settings form checks the weekly-digest box
  and leaves the still-available box unchecked, which is also how the inserted markup
  shows the two boxes before any load.
\<close>

theorem settings_defaults:
  assumes "map_of user ''weekly_digest_enabled'' = None"
    and "map_of user ''still_available_reminders'' = None"
  shows "load_settings user form =
           \<lparr>settings_weekly_digest = True, settings_still_available = False\<rparr>
       \<and> load_settings user form = notification_ui_initial"
  using assms by (simp add: load_settings_def notification_ui_initial_def get_field_def nullish_def)

theorem settings_defaults_witness:
  "load_settings [(''id'', JNum 1), (''ship_to_country'', JStr ''DE'')]
      \<lparr>settings_weekly_digest = False, settings_still_available = True\<rparr> =
     \<lparr>settings_weekly_digest = True, settings_still_available = False\<rparr>"
  using settings_defaults [of "[(''id'', JNum 1), (''ship_to_country'', JStr ''DE'')]"
      "\<lparr>settings_weekly_digest = False, settings_still_available = True\<rparr>"]
  by simp

lemma safeUser_no_password_hash: "map_of (safeUser row) ''password_hash'' = None"
  by (induction row) (auto simp: safeUser_def)

lemma safeUser_other: "k \<noteq> ''password_hash'' \<Longrightarrow> map_of (safeUser row) k = map_of row k"
  by (induction row) (auto simp: safeUser_def)

lemma filter_hd_in: "filter P xs = y # ys \<Longrightarrow> y \<in> set xs \<and> P y"
proof -
  assume "filter P xs = y # ys"
  then have "y \<in> set (filter P xs)" by simp
  then show ?thesis by simp
qed

text \<open>
  C9. Whenever the settings route answers 200, the JSON it sends is a row of the users
  table that the UPDATE selected (its id is the one asked for and it is not deleted), with
  the assignments applied, minus the \<open>password_hash\<close> column: the answer has no
  \<open>password_hash\<close> field and agrees with the updated row on every other column.
\<close>

theorem settings_response_without_password_hash:
  assumes "status_code (fst (users_patch_route db_up now id_param body tbl)) = 200"
  shows "\<exists>i r. parseInt10 id_param = Some i \<and> r \<in> set tbl \<and> users_where i r
           \<and> json (fst (users_patch_route db_up now id_param body tbl)) =
               JObj (safeUser (set_columns (collect_updates body @ [(''updated_at'', JNum now)]) r))
           \<and> map_of (safeUser (set_columns (collect_updates body @ [(''updated_at'', JNum now)]) r))
               ''password_hash'' = None
           \<and> (\<forall>k. k \<noteq> ''password_hash'' \<longrightarrow>
                 map_of (safeUser (set_columns (collect_updates body @ [(''updated_at'', JNum now)]) r)) k
                 = map_of (set_columns (collect_updates body @ [(''updated_at'', JNum now)]) r) k)"
proof -
  from assms obtain i where i: "parseInt10 id_param = Some i"
    by (cases "parseInt10 id_param") (auto simp: users_patch_route_def)
  from assms i have ne: "collect_updates body \<noteq> []"
    by (auto simp: users_patch_route_def Let_def)
  from assms i ne have up: db_up
    by (auto simp: users_patch_route_def Let_def update_users_def split: if_splits)
  let ?a = "collect_updates body @ [(''updated_at'', JNum now)]"
  from assms i ne up obtain r rest where rows: "filter (users_where i) tbl = r # rest"
    by (cases "filter (users_where i) tbl")
       (auto simp: users_patch_route_def Let_def update_users_def)
  then have r: "r \<in> set tbl" "users_where i r"
    using filter_hd_in [OF rows] by auto
  have resp: "json (fst (users_patch_route db_up now id_param body tbl)) = JObj (safeUser (set_columns ?a r))"
    using i ne up rows by (simp add: users_patch_route_def Let_def update_users_def)
  show ?thesis
    using i r resp safeUser_no_password_hash safeUser_other by blast
qed

theorem settings_response_without_password_hash_witness:
  "users_patch_route True 9 ''1'' [(''weekly_digest_enabled'', JBool False)]
      [[(''id'', JNum 1), (''deleted_at'', JNull), (''weekly_digest_enabled'', JBool True),
        (''updated_at'', JNum 0), (''password_hash'', JStr ''secret'')]] =
     (Response 200 (JObj [(''id'', JNum 1), (''deleted_at'', JNull),
        (''weekly_digest_enabled'', JBool False), (''updated_at'', JNum 9)]),
      [[(''id'', JNum 1), (''deleted_at'', JNull), (''weekly_digest_enabled'', JBool False),
        (''updated_at'', JNum 9), (''password_hash'', JStr ''secret'')]])
   \<and> (\<exists>i r. parseInt10 ''1'' = Some i \<and> users_where i r
        \<and> map_of (safeUser (set_columns
              (collect_updates [(''weekly_digest_enabled'', JBool False)] @ [(''updated_at'', JNum 9)]) r))
             ''password_hash'' = None)"
proof -
  have run: "users_patch_route True 9 ''1'' [(''weekly_digest_enabled'', JBool False)]
      [[(''id'', JNum 1), (''deleted_at'', JNull), (''weekly_digest_enabled'', JBool True),
        (''updated_at'', JNum 0), (''password_hash'', JStr ''secret'')]] =
     (Response 200 (JObj [(''id'', JNum 1), (''deleted_at'', JNull),
        (''weekly_digest_enabled'', JBool False), (''updated_at'', JNum 9)]),
      [[(''id'', JNum 1), (''deleted_at'', JNull), (''weekly_digest_enabled'', JBool False),
        (''updated_at'', JNum 9), (''password_hash'', JStr ''secret'')]])"
    by (simp add: users_patch_route_def parseInt10_1 collect_updates_def get_field_def
        update_users_def users_where_def set_columns_def set_column_def safeUser_def)
  then have ok: "status_code (fst (users_patch_route True 9 ''1'' [(''weekly_digest_enabled'', JBool False)]
      [[(''id'', JNum 1), (''deleted_at'', JNull), (''weekly_digest_enabled'', JBool True),
        (''updated_at'', JNum 0), (''password_hash'', JStr ''secret'')]])) = 200"
    by simp
  from settings_response_without_password_hash [OF ok] run
  show ?thesis by blast
qed

section \<open>Properties of the currency symbol\<close>


declare toUpperCase.simps(2) [simp del]






text \<open>
  \<open>getUserCountry\<close> never fails either. It gives the stored country when that is
  truthy and \<open>US\<close> in every other case; the symbol shown on the minifig page then comes
  from the history API.
\<close>

lemma getUserCountry_total:
  "getUserCountry Absent = JStr ''US''"
  "getUserCountry Malformed = JStr ''US''"
  "getUserCountry Unavailable = JStr ''US''"
  "getUserCountry (Parsed (JObj fs)) =
     (if truthy (get_field fs ''ship_to_country'') then get_field fs ''ship_to_country''
      else JStr ''US'')"
  by (simp_all add: getUserCountry_def getUserCountry_try_def get_prop_def js_or_def)

section \<open>Properties of the forgot-password handler\<close>


section \<open>Properties of the v30 frontend patch\<close>

lemma map_of_write_text: "map_of (write_text p c fs) = (map_of fs)(p \<mapsto> c)"
  by (induction fs) (auto simp: fun_eq_iff)

lemma v30_paths_distinct:
  "set_html \<noteq> minifig_html" "set_html \<noteq> set_html_bak" "set_html \<noteq> minifig_html_bak"
  "minifig_html \<noteq> set_html_bak" "minifig_html \<noteq> minifig_html_bak"
  "set_html_bak \<noteq> minifig_html_bak"
  by (simp_all add: set_html_def minifig_html_def set_html_bak_def minifig_html_bak_def
      path_join_def BASE_DIR_def)

lemma v30_main_missing_set:
  "map_of fs set_html = None \<Longrightarrow> v30_main fs = (SysExit 1, fs)"
  by (simp add: v30_main_def exists_def)

lemma v30_main_missing_minifig:
  "map_of fs set_html = Some a \<Longrightarrow> map_of fs minifig_html = None \<Longrightarrow>
     v30_main fs = (Raised (FileNotFoundError minifig_html), write_text set_html_bak a fs)"
  using v30_paths_distinct
  by (simp add: v30_main_def exists_def copy_def map_of_write_text)

lemma v30_main_both:
  assumes a: "map_of fs set_html = Some a" and b: "map_of fs minifig_html = Some b"
  shows "v30_main fs =
     (if set_errors (patch_set_content a) @ minifig_errors (patch_minifig_content b) \<noteq> []
      then (SysExit 1,
            write_text minifig_html b (write_text set_html a
              (write_text minifig_html (patch_minifig_content b)
                (write_text set_html (patch_set_content a)
                  (write_text minifig_html_bak b (write_text set_html_bak a fs))))))
      else (Finished,
            write_text minifig_html (patch_minifig_content b)
              (write_text set_html (patch_set_content a)
                (write_text minifig_html_bak b (write_text set_html_bak a fs)))))"
  using a b v30_paths_distinct v30_paths_distinct [symmetric]
  by (simp add: v30_main_def exists_def copy_def map_of_write_text v30_patch_set_html_def
      v30_patch_minifig_html_def read_text_def verify_patches_def v30_rollback_def)

text \<open>
  C10. The two-file patch of v30_frontend_patch.py is all or nothing. After every run of
  \<open>main\<close>, either the run ends with status 0 and the verification of the files it left
  reports no error, or it ends with a nonzero status and set.html and minifig.html are
  exactly what they were before the run. In particular, when both backups and both patches
  went through and the verification reports an error, \<open>main\<close> ends with
  \<open>sys.exit(1)\<close> after copying both files back from the backups taken at the start.
  (Files are texts that are present or missing; a missing file is the failure of a read
  or a copy.)
\<close>

theorem v30_main_atomic:
  "((exit_status (fst (v30_main fs)) = 0 \<and> verify_patches (snd (v30_main fs)) = Inr [])
    \<or> (exit_status (fst (v30_main fs)) \<noteq> 0
        \<and> map_of (snd (v30_main fs)) set_html = map_of fs set_html
        \<and> map_of (snd (v30_main fs)) minifig_html = map_of fs minifig_html))
   \<and> (copy set_html set_html_bak fs = Inr fs1
        \<and> copy minifig_html minifig_html_bak fs1 = Inr fs2
        \<and> v30_patch_set_html fs2 = Inr fs3
        \<and> v30_patch_minifig_html fs3 = Inr fs4
        \<and> verify_patches fs4 = Inr errors
        \<and> errors \<noteq> []
      \<longrightarrow> fst (v30_main fs) = SysExit 1
        \<and> map_of (snd (v30_main fs)) set_html = map_of fs2 set_html_bak
        \<and> map_of (snd (v30_main fs)) minifig_html = map_of fs2 minifig_html_bak
        \<and> map_of (snd (v30_main fs)) set_html = map_of fs set_html
        \<and> map_of (snd (v30_main fs)) minifig_html = map_of fs minifig_html)"
proof (cases "map_of fs set_html")
  case None
  then show ?thesis
    by (simp add: v30_main_missing_set copy_def)
next
  case (Some a)
  note a = this
  show ?thesis
  proof (cases "map_of fs minifig_html")
    case None
    with a show ?thesis
      using v30_paths_distinct v30_paths_distinct [symmetric]
      by (auto simp: v30_main_missing_minifig copy_def map_of_write_text split: option.splits)
  next
    case (Some b)
    note b = this
    let ?errs = "set_errors (patch_set_content a) @ minifig_errors (patch_minifig_content b)"
    show ?thesis
    proof (cases "?errs = []")
      case True
      with a b show ?thesis
        using v30_paths_distinct v30_paths_distinct [symmetric]
        by (auto simp: v30_main_both copy_def map_of_write_text v30_patch_set_html_def
            v30_patch_minifig_html_def read_text_def verify_patches_def)
    next
      case False
      with a b show ?thesis
        using v30_paths_distinct v30_paths_distinct [symmetric]
        by (auto simp: v30_main_both copy_def map_of_write_text v30_patch_set_html_def
            v30_patch_minifig_html_def read_text_def verify_patches_def)
    qed
  qed
qed


lemma patch_set_content_x: "patch_set_content ''x'' = ''x''"
  by (simp add: patch_set_content_def str_replace_def hardcoded_y_axis_def)

lemma patch_minifig_content_y: "patch_minifig_content ''y'' = ''y''"
  by (simp add: patch_minifig_content_def str_replace_def hardcoded_y_axis_def)

theorem v30_main_atomic_witness:
  "fst (v30_main [(set_html, ''x''), (minifig_html, ''y'')]) = SysExit 1
   \<and> map_of (snd (v30_main [(set_html, ''x''), (minifig_html, ''y'')])) set_html = Some ''x''
   \<and> map_of (snd (v30_main [(set_html, ''x''), (minifig_html, ''y'')])) minifig_html = Some ''y''"
proof -
  let ?fs = "[(set_html, ''x''), (minifig_html, ''y'')]"
  let ?fs1 = "write_text set_html_bak ''x'' ?fs"
  let ?fs2 = "write_text minifig_html_bak ''y'' ?fs1"
  let ?fs3 = "write_text set_html ''x'' ?fs2"
  let ?fs4 = "write_text minifig_html ''y'' ?fs3"
  let ?errors = "set_errors ''x'' @ minifig_errors ''y''"
  note d = v30_paths_distinct v30_paths_distinct [symmetric]
  have c1: "copy set_html set_html_bak ?fs = Inr ?fs1"
    by (simp add: copy_def)
  have c2: "copy minifig_html minifig_html_bak ?fs1 = Inr ?fs2"
    using d by (simp add: copy_def map_of_write_text)
  have p1: "v30_patch_set_html ?fs2 = Inr ?fs3"
    using d by (simp add: v30_patch_set_html_def read_text_def map_of_write_text patch_set_content_x)
  have p2: "v30_patch_minifig_html ?fs3 = Inr ?fs4"
    using d by (simp add: v30_patch_minifig_html_def read_text_def map_of_write_text
        patch_minifig_content_y)
  have v: "verify_patches ?fs4 = Inr ?errors"
    using d by (simp add: verify_patches_def read_text_def map_of_write_text)
  have e: "?errors \<noteq> []"
    by (simp add: set_errors_def)
  have pre: "map_of ?fs set_html = Some ''x''" "map_of ?fs minifig_html = Some ''y''"
    using d by simp_all
  from v30_main_atomic [of ?fs ?fs1 ?fs2 ?fs3 ?fs4 ?errors] c1 c2 p1 p2 v e
  have "fst (v30_main ?fs) = SysExit 1
      \<and> map_of (snd (v30_main ?fs)) set_html = map_of ?fs set_html
      \<and> map_of (snd (v30_main ?fs)) minifig_html = map_of ?fs minifig_html"
    by blast
  then show ?thesis
    unfolding pre .
qed

section \<open>Properties of the string operations\<close>

lemma contains_iff: "contains pat s \<longleftrightarrow> (\<exists>a b. s = a @ pat @ b)"
proof (induction s)
  case Nil
  then show ?case by auto
next
  case (Cons c cs)
  show ?case
  proof
    assume "contains pat (c # cs)"
    then consider "prefix pat (c # cs)" | "contains pat cs" by auto
    then show "\<exists>a b. c # cs = a @ pat @ b"
    proof cases
      case 1
      then obtain b where "c # cs = pat @ b" by (auto simp: prefix_def)
      then have "c # cs = [] @ pat @ b" by simp
      then show ?thesis by blast
    next
      case 2
      with Cons.IH obtain a b where "cs = a @ pat @ b" by blast
      then have "c # cs = (c # a) @ pat @ b" by simp
      then show ?thesis by blast
    qed
  next
    assume "\<exists>a b. c # cs = a @ pat @ b"
    then obtain a b where ab: "c # cs = a @ pat @ b" by blast
    show "contains pat (c # cs)"
    proof (cases a)
      case Nil
      with ab have "prefix pat (c # cs)" by (simp add: prefix_def)
      then show ?thesis by simp
    next
      case (Cons x a')
      with ab have "cs = a' @ pat @ b" by simp
      with Cons.IH have "contains pat cs" by blast
      then show ?thesis by simp
    qed
  qed
qed



lemma contains_set: "contains pat s \<Longrightarrow> set pat \<subseteq> set s"
  unfolding contains_iff by auto









section \<open>Idempotence of the patch steps\<close>



















section \<open>Backups\<close>











end
